theory Spec2Isabelle
  imports Complex_Main "HOL-Library.AList" "HOL-Library.Sublist"
begin

section \<open>Data model (shared/schema.ts)\<close>

text \<open>
  The order status of the code has four values; there is no separate status for an order
  whose payment has been confirmed: such an order is still \<open>pending\<close>.
\<close>

datatype OrderStatusType = PENDING | PROCESSING | COMPLETE | FAILED

text \<open>
  A row of the \<open>orders\<close> table. Identifiers, counts and amounts are JavaScript numbers that
  hold integers here; timestamps are milliseconds. The nullable columns \<open>apiCost\<close>,
  \<open>content\<close> and \<open>stripePaymentIntentId\<close> are options, \<open>None\<close> standing for \<open>null\<close>.
  Strings are lists of bytes, the UTF-8 encoding of the JavaScript string. JavaScript's
  \<open>length\<close> counts UTF-16 code units; \<open>js_length\<close> counts them from the bytes: a
  continuation byte counts nothing, the first byte of a four-byte sequence counts two (a
  surrogate pair), every other byte one.
\<close>

definition utf16_units :: "char \<Rightarrow> nat" where
  "utf16_units c =
     (let n = (of_char c :: nat)
      in if n < 128 then 1 else if n < 192 then 0 else if n < 240 then 1 else 2)"

definition js_length :: "string \<Rightarrow> nat" where
  "js_length s = sum_list (map utf16_units s)"

text \<open>
  Numbers are JavaScript numbers that hold integers; fractional word counts and prices are
  not represented.
\<close>

record Order =
  order_id :: int
  status :: OrderStatusType
  topic :: string
  wordCount :: int
  price :: int
  apiCost :: "int option"
  content :: "string option"
  customerEmail :: string
  stripePaymentIntentId :: "string option"
  createdAt :: int
  updatedAt :: int

text \<open>\<open>InsertOrder\<close>: the fields picked by \<open>insertOrderSchema\<close>.\<close>

record InsertOrder =
  ins_topic :: string
  ins_wordCount :: int
  ins_price :: int
  ins_customerEmail :: string
  ins_stripePaymentIntentId :: "string option"

text \<open>
  \<open>UpdateOrder\<close>: every field is optional; the outer option says whether the key is present in
  the update object, the inner one (for nullable columns) is the value written.
\<close>

record UpdateOrder =
  upd_status :: "OrderStatusType option"
  upd_content :: "string option option"
  upd_apiCost :: "int option option"
  upd_stripePaymentIntentId :: "string option option"

definition no_update :: UpdateOrder where
  "no_update = \<lparr>upd_status = None, upd_content = None, upd_apiCost = None,
     upd_stripePaymentIntentId = None\<rparr>"

section \<open>Settings objects and the object heap\<close>

text \<open>
  \<open>MemStorage.settings\<close> is one mutable JavaScript object with the sections \<open>apiKeys\<close>,
  \<open>email\<close> and \<open>pricing\<close>. \<open>getSettings\<close> hands out a reference to it, so the model keeps
  settings objects in a heap and passes addresses. A section is reached only through its
  root object, so it is stored inside the root; a field that is \<open>undefined\<close> is \<open>None\<close>.
\<close>

type_synonym addr = nat

record apiKeys =
  openaiApiKey :: "string option"
  stripeSecretKey :: "string option"
  stripeWebhookSecret :: "string option"

record emailSettings =
  smtpHost :: "string option"
  smtpPort :: "string option"
  smtpUser :: "string option"
  smtpPassword :: "string option"
  senderEmail :: "string option"

record pricing =
  pricePerWord :: "int option"

record settings_obj =
  s_apiKeys :: "apiKeys option"
  s_email :: "emailSettings option"
  s_pricing :: "pricing option"

section \<open>MemStorage (server/storage.ts)\<close>

text \<open>
  The \<open>orders\<close> map is a JavaScript \<open>Map\<close>: it iterates in insertion order and \<open>set\<close> on a
  present key keeps the key's position, which is what \<open>AList.update\<close> does on an association
  list. The users map plays no part in the order lifecycle and is left out.
\<close>

record MemStorage =
  orders :: "(int \<times> Order) list"
  orderIdCounter :: int
  settings :: addr
  heap :: "addr \<Rightarrow> settings_obj option"

definition default_settings :: settings_obj where
  "default_settings =
     \<lparr>s_apiKeys = Some \<lparr>openaiApiKey = Some [], stripeSecretKey = Some [],
                          stripeWebhookSecret = Some []\<rparr>,
      s_email = Some \<lparr>smtpHost = Some [], smtpPort = Some ''587'', smtpUser = Some [],
                        smtpPassword = Some [], senderEmail = Some ''noreply@contentcraft.com''\<rparr>,
      s_pricing = Some \<lparr>pricePerWord = Some 5\<rparr>\<rparr>"

definition new_MemStorage :: MemStorage where
  "new_MemStorage =
     \<lparr>orders = [], orderIdCounter = 1, settings = 0,
      heap = (\<lambda>a. if a = 0 then Some default_settings else None)\<rparr>"

definition createOrder :: "MemStorage \<Rightarrow> InsertOrder \<Rightarrow> int \<Rightarrow> MemStorage \<times> Order" where
  "createOrder st ins now =
     (let i = orderIdCounter st;
          newOrder = \<lparr>order_id = i, status = PENDING, topic = ins_topic ins,
                      wordCount = ins_wordCount ins, price = ins_price ins,
                      apiCost = Some 0, content = Some [],
                      customerEmail = ins_customerEmail ins,
                      stripePaymentIntentId = ins_stripePaymentIntentId ins,
                      createdAt = now, updatedAt = now\<rparr>
      in (st\<lparr>orders := AList.update i newOrder (orders st), orderIdCounter := i + 1\<rparr>,
          newOrder))"

definition getOrder :: "MemStorage \<Rightarrow> int \<Rightarrow> Order option" where
  "getOrder st i = map_of (orders st) i"

definition getOrderByPaymentIntent :: "MemStorage \<Rightarrow> string \<Rightarrow> Order option" where
  "getOrderByPaymentIntent st paymentIntentId =
     find (\<lambda>order. stripePaymentIntentId order = Some paymentIntentId) (map snd (orders st))"

definition apply_update :: "Order \<Rightarrow> UpdateOrder \<Rightarrow> int \<Rightarrow> Order" where
  "apply_update order u now =
     order\<lparr>status := (case upd_status u of None \<Rightarrow> status order | Some s \<Rightarrow> s),
           content := (case upd_content u of None \<Rightarrow> content order | Some c \<Rightarrow> c),
           apiCost := (case upd_apiCost u of None \<Rightarrow> apiCost order | Some c \<Rightarrow> c),
           stripePaymentIntentId :=
             (case upd_stripePaymentIntentId u of None \<Rightarrow> stripePaymentIntentId order
              | Some p \<Rightarrow> p),
           updatedAt := now\<rparr>"

definition updateOrder ::
  "MemStorage \<Rightarrow> int \<Rightarrow> UpdateOrder \<Rightarrow> int \<Rightarrow> MemStorage \<times> Order option" where
  "updateOrder st i u now =
     (case map_of (orders st) i of
        None \<Rightarrow> (st, None)
      | Some order \<Rightarrow>
          (let updatedOrder = apply_update order u now
           in (st\<lparr>orders := AList.update i updatedOrder (orders st)\<rparr>, Some updatedOrder)))"

definition getSettings :: "MemStorage \<Rightarrow> addr" where
  "getSettings st = settings st"

section \<open>Effects, responses and numbers as text\<close>

datatype EmailTemplate = received | in_progress | completed | failed | payment_failed

text \<open>
  What a route handler does besides changing the store, in the order it does it: the calls to
  the order store, the notification attempts (\<open>sendEmail\<close>, template and recipient), the
  self-addressed request that triggers processing, and the call of the generation client.
\<close>

datatype effect =
    CallGetOrder int
  | CallGetOrderByPaymentIntent string
  | CallUpdateOrder int UpdateOrder
  | CallCreateOrder
  | SendEmail string EmailTemplate
  | FetchProcess int
  | GenerateContent string int

datatype body =
    Message string
  | ValidationFailed
  | OrderCreated int string
  | WebhookReceived
  | SendText string
  | OrderJson Order

datatype response = Response nat body

fun code_of :: "response \<Rightarrow> nat" where
  "code_of (Response c b) = c"

definition digit_char :: "nat \<Rightarrow> char" where
  "digit_char d = char_of (48 + d)"

fun show_nat :: "nat \<Rightarrow> string" where
  "show_nat n = (if n < 10 then [digit_char n] else show_nat (n div 10) @ [digit_char (n mod 10)])"

declare show_nat.simps [simp del]

definition show_int :: "int \<Rightarrow> string" where
  "show_int i = (if i < 0 then CHR ''-'' # show_nat (nat (- i)) else show_nat (nat i))"

text \<open>
  \<open>parseInt(s, 10)\<close>: leading white space is skipped (the ASCII white space here), an optional
  sign is read, then the longest run of decimal digits; with no digit the result is \<open>NaN\<close>,
  here \<open>None\<close>.
\<close>

definition is_ws :: "char \<Rightarrow> bool" where
  "is_ws c = (of_char c \<in> {9, 10, 11, 12, 13, 32 :: nat})"

definition is_digit :: "char \<Rightarrow> bool" where
  "is_digit c = (48 \<le> (of_char c :: nat) \<and> (of_char c :: nat) \<le> 57)"

definition digits_val :: "string \<Rightarrow> nat" where
  "digits_val ds = foldl (\<lambda>a c. 10 * a + (of_char c - 48)) 0 ds"

definition parseInt :: "string \<Rightarrow> int option" where
  "parseInt s =
     (let s1 = dropWhile is_ws s;
          neg = (s1 \<noteq> [] \<and> hd s1 = CHR ''-'');
          s2 = (if s1 \<noteq> [] \<and> (hd s1 = CHR ''-'' \<or> hd s1 = CHR ''+'') then tl s1 else s1);
          ds = takeWhile is_digit s2
      in if ds = [] then None
         else Some (if neg then - int (digits_val ds) else int (digits_val ds)))"

section \<open>Configuration (config object) and thrown values\<close>

record config =
  NODE_ENV :: "string option"
  PRICE_PER_WORD_CENTS :: int
  STRIPE_WEBHOOK_SECRET :: string
  SMTP_HOST :: string
  SMTP_USER :: string
  SMTP_PASSWORD :: string
  SMTP_SENDER :: string

text \<open>A thrown value is an \<open>Error\<close> with its message, or something that is not an \<open>Error\<close>.\<close>

datatype thrown = Error string | NonError

fun message_of :: "thrown \<Rightarrow> string" where
  "message_of (Error m) = m"
| "message_of NonError = ''Unknown error''"

section \<open>Generation client (services/openai.ts)\<close>

text \<open>
  The provider's answer to \<open>chat.completions.create\<close>: the message content of every choice
  (\<open>None\<close> for \<open>null\<close>) and the token usage (prompt tokens, completion tokens) if reported.
  The provider itself is outside the repository and is a parameter: a function from topic and
  word count to a thrown value or a completion.
\<close>

record completion =
  choices :: "string option list"
  usage :: "(nat \<times> nat) option"

text \<open>
  The cost is computed in double precision. \<open>to_double\<close> rounds a rational to the nearest
  binary64 number, ties to the even significand (53 bits; the values here are far from
  overflow and underflow): every arithmetic operation of the source is the exact operation
  followed by this rounding. \<open>Math.round\<close> takes the nearest integer, a tie upwards.
\<close>

fun log2_floor :: "nat \<Rightarrow> nat" where
  "log2_floor n = (if n < 2 then 0 else Suc (log2_floor (n div 2)))"

declare log2_floor.simps [simp del]

definition pow2 :: "int \<Rightarrow> rat" where
  "pow2 e = (if 0 \<le> e then 2 ^ nat e else 1 / 2 ^ nat (- e))"

text \<open>The exponent \<open>e\<close> with \<open>2 ^ e \<le> x < 2 ^ (e + 1)\<close>, for positive \<open>x\<close>.\<close>

definition binade :: "rat \<Rightarrow> int" where
  "binade x =
     (if 1 \<le> x then int (log2_floor (nat \<lfloor>x\<rfloor>))
      else (let m = int (log2_floor (nat \<lfloor>1 / x\<rfloor>))
            in if x = pow2 (- m) then - m else - (m + 1)))"

definition round_half_even :: "rat \<Rightarrow> int" where
  "round_half_even q =
     (let f = \<lfloor>q\<rfloor>; r = q - of_int f
      in if r < 1 / 2 then f else if 1 / 2 < r then f + 1 else if even f then f else f + 1)"

definition to_double :: "rat \<Rightarrow> rat" where
  "to_double x =
     (if x = 0 then 0
      else (let a = \<bar>x\<bar>; ulp = pow2 (binade a - 52); n = round_half_even (a / ulp)
            in (if x < 0 then - 1 else 1) * of_int n * ulp))"

definition Math_round :: "rat \<Rightarrow> int" where
  "Math_round x = \<lfloor>x + 1 / 2\<rfloor>"

text \<open>
  \<open>inputCost = (inputTokens / 1000) * 1\<close>, \<open>outputCost = (outputTokens / 1000) * 3\<close>,
  \<open>totalCost = (inputCost + outputCost) * 100\<close>, and the cost is \<open>Math.round(totalCost)\<close>.
\<close>

definition cost_cents :: "nat \<Rightarrow> nat \<Rightarrow> int" where
  "cost_cents inputTokens outputTokens =
     (let inputCost = to_double (to_double (of_nat inputTokens / 1000) * 1);
          outputCost = to_double (to_double (of_nat outputTokens / 1000) * 3);
          totalCost = to_double (to_double (inputCost + outputCost) * 100)
      in Math_round totalCost)"

text \<open>
  Reading \<open>choices[0].message\<close> of an empty choice list throws; every throw is rethrown as
  one \<open>Error\<close>.
\<close>

definition generateContent ::
  "(string \<Rightarrow> int \<Rightarrow> thrown + completion) \<Rightarrow> string \<Rightarrow> int \<Rightarrow> thrown + (string \<times> int)" where
  "generateContent openai tp wc =
     (case openai tp wc of
        Inl err \<Rightarrow> Inl (Error (''Content generation failed: '' @ message_of err))
      | Inr r \<Rightarrow>
          (let inputTokens = (case usage r of None \<Rightarrow> 0 | Some (i, out) \<Rightarrow> i);
               outputTokens = (case usage r of None \<Rightarrow> 0 | Some (i, out) \<Rightarrow> out);
               cost = cost_cents inputTokens outputTokens
           in case choices r of
                [] \<Rightarrow> Inl (Error (''Content generation failed: ''
                         @ ''Cannot read properties of undefined (reading 'message')''))
              | c # cs \<Rightarrow> Inr (case c of None \<Rightarrow> [] | Some txt \<Rightarrow> txt, cost)))"

section \<open>Notification client (services/email.ts)\<close>

record EmailData =
  to :: string
  subject :: string
  template :: EmailTemplate

record mailOptions =
  mail_from :: string
  mail_to :: string
  mail_subject :: string
  mail_html :: string

datatype console =
    LogSkipped
  | LogWouldHaveSent EmailData
  | LogSent string EmailTemplate
  | LogErrorSending thrown
  | TransportSendMail mailOptions

text \<open>
  \<open>try { body } catch (error) { handler }\<close> on results: a thrown value of the body is passed
  to the handler, whose result is the result of the statement.
\<close>

definition try_catch :: "(thrown + 'a) \<Rightarrow> (thrown \<Rightarrow> thrown + 'a) \<Rightarrow> thrown + 'a" where
  "try_catch body handler = (case body of Inl err \<Rightarrow> handler err | Inr v \<Rightarrow> Inr v)"

text \<open>
  \<open>sendEmail\<close>. Creating the transport, rendering the template and the transport's
  \<open>sendMail\<close> are the three steps inside the \<open>try\<close>; each may throw, and each is a parameter
  (nodemailer is outside the repository, and the rendered HTML plays no part in what follows).
  The result is \<open>Inl\<close> when the returned promise rejects, with the console lines and the
  transport calls made on the way.
\<close>

definition sendEmail ::
  "config \<Rightarrow> (config \<Rightarrow> thrown + 't) \<Rightarrow> (EmailTemplate \<Rightarrow> thrown + string) \<Rightarrow>
   ('t \<Rightarrow> mailOptions \<Rightarrow> thrown + unit) \<Rightarrow> EmailData \<Rightarrow> (thrown + unit) \<times> console list" where
  "sendEmail cfg getTransport getEmailContent sendMail emailData =
     (if NODE_ENV cfg \<noteq> Some ''production''
         \<and> (SMTP_HOST cfg = [] \<or> SMTP_USER cfg = [] \<or> SMTP_PASSWORD cfg = [])
      then (Inr (), [LogSkipped, LogWouldHaveSent emailData])
      else
        (case getTransport cfg of
           Inl err \<Rightarrow> (try_catch (Inl err) (\<lambda>e. Inr ()), [LogErrorSending err])
         | Inr transport \<Rightarrow>
             (case getEmailContent (template emailData) of
                Inl err \<Rightarrow> (try_catch (Inl err) (\<lambda>e. Inr ()), [LogErrorSending err])
              | Inr html \<Rightarrow>
                  (let opts = \<lparr>mail_from = SMTP_SENDER cfg, mail_to = to emailData,
                                mail_subject = subject emailData, mail_html = html\<rparr>
                   in case sendMail transport opts of
                        Inl err \<Rightarrow> (try_catch (Inl err) (\<lambda>e. Inr ()),
                                    [TransportSendMail opts, LogErrorSending err])
                      | Inr u \<Rightarrow> (try_catch (Inr ()) (\<lambda>e. Inr ()),
                                  [TransportSendMail opts,
                                   LogSent (to emailData) (template emailData)])))))"

section \<open>Payment webhook (server/routes/stripe.ts)\<close>

text \<open>
  A verified Stripe event, as far as the handler reads it: for \<open>checkout.session.completed\<close>
  the \<open>metadata.orderId\<close> and the \<open>payment_intent\<close> of the session, for
  \<open>payment_intent.payment_failed\<close> the id of the payment intent; any other type is ignored.
  \<open>stripe.webhooks.constructEvent\<close> is outside the repository and is a parameter: from
  payload, signature header and secret to a thrown value or an event. The payload it is given
  is \<open>req.body\<close>: the raw text of the request, or the value a body parser has made of it.
\<close>

datatype jsval =
    JUndefined | JNull | JBool bool | JNum int | JStr string
  | JArr "jsval list" | JObj "(string \<times> jsval) list"

datatype payload = RawBody string | ParsedBody jsval

datatype stripe_event =
    CheckoutSessionCompleted "string option" "string option"
  | PaymentIntentPaymentFailed string
  | OtherEvent string

record webhook_request =
  wh_body :: payload
  wh_signature :: "string option"

definition checkout_session_completed ::
  "MemStorage \<Rightarrow> string option \<Rightarrow> string option \<Rightarrow> int \<Rightarrow> MemStorage \<times> response \<times> effect list" where
  "checkout_session_completed st metaOrderId payment_intent now =
     (case parseInt (case metaOrderId of None \<Rightarrow> [] | Some s \<Rightarrow> s) of
        None \<Rightarrow> (st, Response 400 (Message ''Invalid order ID''), [])
      | Some orderId \<Rightarrow>
          (case getOrder st orderId of
             None \<Rightarrow> (st, Response 404 (Message ''Order not found''), [CallGetOrder orderId])
           | Some order \<Rightarrow>
               (let u = no_update\<lparr>upd_stripePaymentIntentId := Some payment_intent\<rparr>
                in (fst (updateOrder st orderId u now), Response 200 WebhookReceived,
                    [CallGetOrder orderId, CallUpdateOrder orderId u,
                     SendEmail (customerEmail order) received, FetchProcess orderId]))))"

definition payment_intent_payment_failed ::
  "MemStorage \<Rightarrow> string \<Rightarrow> int \<Rightarrow> MemStorage \<times> response \<times> effect list" where
  "payment_intent_payment_failed st paymentIntentId now =
     (case getOrderByPaymentIntent st paymentIntentId of
        None \<Rightarrow> (st, Response 200 WebhookReceived, [CallGetOrderByPaymentIntent paymentIntentId])
      | Some order \<Rightarrow>
          (let u = no_update\<lparr>upd_status := Some FAILED\<rparr>
           in (fst (updateOrder st (order_id order) u now), Response 200 WebhookReceived,
               [CallGetOrderByPaymentIntent paymentIntentId, CallUpdateOrder (order_id order) u,
                SendEmail (customerEmail order) payment_failed])))"

definition handle_event ::
  "MemStorage \<Rightarrow> stripe_event \<Rightarrow> int \<Rightarrow> MemStorage \<times> response \<times> effect list" where
  "handle_event st ev now =
     (case ev of
        CheckoutSessionCompleted metaOrderId payment_intent \<Rightarrow>
          checkout_session_completed st metaOrderId payment_intent now
      | PaymentIntentPaymentFailed paymentIntentId \<Rightarrow> payment_intent_payment_failed st paymentIntentId now
      | OtherEvent ty \<Rightarrow> (st, Response 200 WebhookReceived, []))"

definition webhook ::
  "(payload \<Rightarrow> string option \<Rightarrow> string \<Rightarrow> thrown + stripe_event) \<Rightarrow> config \<Rightarrow>
   MemStorage \<Rightarrow> webhook_request \<Rightarrow> int \<Rightarrow> MemStorage \<times> response \<times> effect list" where
  "webhook constructEvent cfg st req now =
     (case constructEvent (wh_body req) (wh_signature req) (STRIPE_WEBHOOK_SECRET cfg) of
        Inl err \<Rightarrow> (st, Response 400 (SendText (''Webhook Error: '' @ message_of err)), [])
      | Inr ev \<Rightarrow> handle_event st ev now)"

text \<open>
  The application installs \<open>express.json()\<close> (and \<open>express.urlencoded\<close>) for every route
  before the routes are registered (server/index.ts), and no route reads the raw body. A
  request to \<open>POST /api/webhook\<close> therefore reaches the handler with \<open>req.body\<close> the parsed
  value, unless the parser has already answered it. The parsers are outside the repository
  and are the parameter \<open>bodyParser\<close>: from the request to the parser's own response or the
  value of \<open>req.body\<close>.
\<close>

record http_request =
  hr_contentType :: "string option"
  hr_body :: string
  hr_signature :: "string option"

definition post_api_webhook ::
  "(http_request \<Rightarrow> response + jsval) \<Rightarrow>
   (payload \<Rightarrow> string option \<Rightarrow> string \<Rightarrow> thrown + stripe_event) \<Rightarrow> config \<Rightarrow>
   MemStorage \<Rightarrow> http_request \<Rightarrow> int \<Rightarrow> MemStorage \<times> response \<times> effect list" where
  "post_api_webhook bodyParser constructEvent cfg st hreq now =
     (case bodyParser hreq of
        Inl resp \<Rightarrow> (st, resp, [])
      | Inr v \<Rightarrow>
          webhook constructEvent cfg st
            \<lparr>wh_body = ParsedBody v, wh_signature = hr_signature hreq\<rparr> now)"

text \<open>
  Stripe's verification computes the signature over the raw text of the request; given a
  parsed value it finds no matching signature and throws. This is the property of the library
  that the statements about the application as wired assume.
\<close>

definition verifies_raw_only ::
  "(payload \<Rightarrow> string option \<Rightarrow> string \<Rightarrow> thrown + stripe_event) \<Rightarrow> bool" where
  "verifies_raw_only constructEvent =
     (\<forall>v sig secret. isl (constructEvent (ParsedBody v) sig secret))"

section \<open>Order routes (server/routes/orders.ts)\<close>

fun status_text :: "OrderStatusType \<Rightarrow> string" where
  "status_text PENDING = ''pending''"
| "status_text PROCESSING = ''processing''"
| "status_text COMPLETE = ''complete''"
| "status_text FAILED = ''failed''"

text \<open>
  \<open>POST /api/orders/:id/process\<close>. The store's promises are already resolved, so the
  handler runs without interruption up to its first wait on the network, the call of the
  generation client; other requests are served while it waits. The handler is therefore two
  steps. \<open>process_begin\<close> looks the order up, checks the status, sets it to \<open>processing\<close>,
  notifies and calls the generation client; it ends with a response, or with the request
  left waiting: the order id, the order object it read, and the result its generation call
  will have. \<open>process_finish\<close> is what the handler does when that call settles, whatever the
  stored order has become in between.
\<close>

record waiting_request =
  w_orderId :: int
  w_order :: Order
  w_result :: "thrown + (string \<times> int)"

definition process_begin ::
  "(string \<Rightarrow> int \<Rightarrow> thrown + completion) \<Rightarrow> MemStorage \<Rightarrow> int \<Rightarrow> int \<Rightarrow>
   MemStorage \<times> (response + waiting_request) \<times> effect list" where
  "process_begin openai st orderId now =
     (case getOrder st orderId of
        None \<Rightarrow> (st, Inl (Response 404 (Message ''Order not found'')), [CallGetOrder orderId])
      | Some order \<Rightarrow>
          if status order \<noteq> PENDING
          then (st, Inl (Response 400
                      (Message (''Order is already '' @ status_text (status order)))),
                [CallGetOrder orderId])
          else
            (let u1 = no_update\<lparr>upd_status := Some PROCESSING\<rparr>
             in (fst (updateOrder st orderId u1 now),
                 Inr \<lparr>w_orderId = orderId, w_order = order,
                      w_result = generateContent openai (topic order) (wordCount order)\<rparr>,
                 [CallGetOrder orderId, CallUpdateOrder orderId u1,
                  SendEmail (customerEmail order) in_progress,
                  GenerateContent (topic order) (wordCount order)])))"

definition process_finish ::
  "MemStorage \<Rightarrow> waiting_request \<Rightarrow> int \<Rightarrow> MemStorage \<times> response \<times> effect list" where
  "process_finish st w now =
     (case w_result w of
        Inr (txt, cost) \<Rightarrow>
          (let u2 = \<lparr>upd_status = Some COMPLETE, upd_content = Some (Some txt),
                     upd_apiCost = Some (Some cost), upd_stripePaymentIntentId = None\<rparr>
           in (fst (updateOrder st (w_orderId w) u2 now),
               Response 200 (Message ''Order processed successfully''),
               [CallUpdateOrder (w_orderId w) u2,
                SendEmail (customerEmail (w_order w)) completed]))
      | Inl err \<Rightarrow>
          (let u3 = no_update\<lparr>upd_status := Some FAILED\<rparr>
           in (fst (updateOrder st (w_orderId w) u3 now),
               Response 500 (Message ''Content generation failed''),
               [CallUpdateOrder (w_orderId w) u3,
                SendEmail (customerEmail (w_order w)) failed])))"

definition process_route ::
  "(string \<Rightarrow> int \<Rightarrow> thrown + completion) \<Rightarrow> MemStorage \<Rightarrow> string \<Rightarrow> int \<Rightarrow>
   MemStorage \<times> (response + waiting_request) \<times> effect list" where
  "process_route openai st idParam now =
     (case parseInt idParam of
        None \<Rightarrow> (st, Inl (Response 400 (Message ''Invalid order ID'')), [])
      | Some orderId \<Rightarrow> process_begin openai st orderId now)"

text \<open>
  \<open>GET /api/orders/:id\<close>. It is registered before \<open>GET /api/orders/recent\<close> and
  \<open>GET /api/orders/export\<close> and does not pass requests on, so it is also the handler that
  answers those two paths, with \<open>recent\<close> and \<open>export\<close> as the id.
\<close>

definition get_order_route :: "MemStorage \<Rightarrow> string \<Rightarrow> response" where
  "get_order_route st idParam =
     (case parseInt idParam of
        None \<Rightarrow> Response 400 (Message ''Invalid order ID'')
      | Some orderId \<Rightarrow>
          (case getOrder st orderId of
             None \<Rightarrow> Response 404 (Message ''Order not found'')
           | Some order \<Rightarrow> Response 200 (OrderJson order)))"

text \<open>
  \<open>POST /api/orders/create\<close>. The request body holds JSON values; \<open>createOrderRequestSchema\<close>
  wants a string of \<open>length\<close> at least three, a number from 100 to 5000 and a string that is
  an email address for zod, whose test \<open>isEmail\<close> is a parameter.
\<close>

record create_request =
  req_topic :: jsval
  req_wordCount :: jsval
  req_customerEmail :: jsval

definition createOrderRequestSchema ::
  "(string \<Rightarrow> bool) \<Rightarrow> create_request \<Rightarrow> (string \<times> int \<times> string) option" where
  "createOrderRequestSchema isEmail req =
     (case (req_topic req, req_wordCount req, req_customerEmail req) of
        (JStr t, JNum w, JStr e) \<Rightarrow>
          if 3 \<le> js_length t \<and> 100 \<le> w \<and> w \<le> 5000 \<and> isEmail e then Some (t, w, e) else None
      | _ \<Rightarrow> None)"

text \<open>\<open>settings.pricing?.pricePerWord || config.PRICE_PER_WORD_CENTS\<close>.\<close>

definition pricePerWord_or_default :: "config \<Rightarrow> settings_obj \<Rightarrow> int" where
  "pricePerWord_or_default cfg s =
     (case s_pricing s of
        None \<Rightarrow> PRICE_PER_WORD_CENTS cfg
      | Some p \<Rightarrow>
          (case pricePerWord p of
             None \<Rightarrow> PRICE_PER_WORD_CENTS cfg
           | Some n \<Rightarrow> if n \<noteq> 0 then n else PRICE_PER_WORD_CENTS cfg))"

definition create_order_route ::
  "(string \<Rightarrow> bool) \<Rightarrow> config \<Rightarrow> MemStorage \<Rightarrow> create_request \<Rightarrow> int \<Rightarrow>
   MemStorage \<times> response \<times> effect list" where
  "create_order_route isEmail cfg st req now =
     (case createOrderRequestSchema isEmail req of
        None \<Rightarrow> (st, Response 400 ValidationFailed, [])
      | Some (t, w, e) \<Rightarrow>
          (case heap st (getSettings st) of
             None \<Rightarrow> (st, Response 500 (Message ''Internal server error''), [])
           | Some s \<Rightarrow>
               (let pricePerWord = pricePerWord_or_default cfg s;
                    price = w * pricePerWord;
                    (st', order) = createOrder st
                       \<lparr>ins_topic = t, ins_wordCount = w, ins_price = price,
                        ins_customerEmail = e, ins_stripePaymentIntentId = Some []\<rparr> now
                in (st', Response 200
                           (OrderCreated (order_id order)
                              (''/api/checkout/'' @ show_int (order_id order))),
                    [CallCreateOrder]))))"

section \<open>Listing (MemStorage.getAllOrders)\<close>

datatype dateFilter = today | week | month | all_dates

record list_options =
  opt_status :: "OrderStatusType option"
  opt_page :: "int option"
  opt_limit :: "int option"
  opt_search :: "string option"
  opt_dateFilter :: "dateFilter option"

definition no_options :: list_options where
  "no_options = \<lparr>opt_status = None, opt_page = None, opt_limit = None, opt_search = None,
     opt_dateFilter = None\<rparr>"

text \<open>\<open>toLowerCase\<close> on ASCII letters, and \<open>includes\<close>.\<close>

definition toLowerCase :: "string \<Rightarrow> string" where
  "toLowerCase s =
     map (\<lambda>c. if 65 \<le> (of_char c :: nat) \<and> (of_char c :: nat) \<le> 90
               then char_of ((of_char c :: nat) + 32) else c) s"

definition str_includes :: "string \<Rightarrow> string \<Rightarrow> bool" where
  "str_includes hay needle = sublist needle hay"

text \<open>
  The three filters of \<open>getAllOrders\<close> on one order. An absent or empty search string and
  an absent or \<open>all\<close> date filter filter nothing. The start of the date range is JavaScript
  calendar arithmetic in local time on the current date; it is the parameter \<open>startDate\<close>,
  from the filter and the current time to a time.
\<close>

definition order_matches ::
  "(dateFilter \<Rightarrow> int \<Rightarrow> int) \<Rightarrow> int \<Rightarrow> list_options \<Rightarrow> Order \<Rightarrow> bool" where
  "order_matches startDate now opts order =
     ((case opt_status opts of None \<Rightarrow> True | Some s \<Rightarrow> status order = s)
      \<and> (case opt_search opts of
            None \<Rightarrow> True
          | Some search \<Rightarrow>
              search = []
              \<or> str_includes (toLowerCase (customerEmail order)) (toLowerCase search)
              \<or> str_includes (show_int (order_id order)) search
              \<or> str_includes (toLowerCase (topic order)) (toLowerCase search))
      \<and> (case opt_dateFilter opts of
            None \<Rightarrow> True
          | Some all_dates \<Rightarrow> True
          | Some d \<Rightarrow> startDate d now \<le> createdAt order))"

text \<open>
  \<open>Array.prototype.sort\<close> is stable, and the comparator orders by \<open>createdAt\<close>, later first:
  a stable insertion sort on the negated time.
\<close>

definition filteredOrders ::
  "(dateFilter \<Rightarrow> int \<Rightarrow> int) \<Rightarrow> int \<Rightarrow> MemStorage \<Rightarrow> list_options \<Rightarrow> Order list" where
  "filteredOrders startDate now st opts =
     sort_key (\<lambda>order. - createdAt order)
       (filter (order_matches startDate now opts) (map snd (orders st)))"

text \<open>\<open>Array.prototype.slice(start, end)\<close>: negative indices count from the end.\<close>

definition js_slice :: "int \<Rightarrow> int \<Rightarrow> 'a list \<Rightarrow> 'a list" where
  "js_slice start fin xs =
     (let len = int (length xs);
          k = (if start < 0 then max (len + start) 0 else min start len);
          final = (if fin < 0 then max (len + fin) 0 else min fin len)
      in take (nat (final - k)) (drop (nat k) xs))"

definition getAllOrders ::
  "(dateFilter \<Rightarrow> int \<Rightarrow> int) \<Rightarrow> int \<Rightarrow> MemStorage \<Rightarrow> list_options \<Rightarrow> Order list \<times> nat" where
  "getAllOrders startDate now st opts =
     (let page = (case opt_page opts of None \<Rightarrow> 1 | Some p \<Rightarrow> p);
          limit = (case opt_limit opts of None \<Rightarrow> 10 | Some l \<Rightarrow> l);
          sorted_orders = filteredOrders startDate now st opts;
          startIndex = (page - 1) * limit;
          endIndex = startIndex + limit
      in (js_slice startIndex endIndex sorted_orders, length sorted_orders))"

text \<open>Every stored order was created before time \<open>t\<close>.\<close>

definition created_before :: "MemStorage \<Rightarrow> int \<Rightarrow> bool" where
  "created_before st t = list_all (\<lambda>order. createdAt order < t) (map snd (orders st))"

section \<open>CSV export (GET /api/orders/export)\<close>














section \<open>Settings routes (GET /api/settings, PATCH /api/settings/api-keys)\<close>

definition bullet :: string where
  "bullet = [CHR 0xE2, CHR 0x80, CHR 0xA2]"

definition mask31 :: string where
  "mask31 = concat (replicate 31 bullet)"

definition mask13 :: string where
  "mask13 = concat (replicate 13 bullet)"

text \<open>A string field is truthy when it is defined and not empty.\<close>

definition truthy :: "string option \<Rightarrow> bool" where
  "truthy v = (v \<noteq> None \<and> v \<noteq> Some [])"

text \<open>
  \<open>updateSettings("apiKeys", {openaiApiKey, stripeSecretKey, stripeWebhookSecret})\<close>: the
  route passes all three keys, so the spread takes each of them from the new object.
\<close>

definition updateSettings_apiKeys :: "MemStorage \<Rightarrow> apiKeys \<Rightarrow> MemStorage" where
  "updateSettings_apiKeys st newSettings =
     (case heap st (settings st) of
        None \<Rightarrow> st
      | Some s \<Rightarrow> st\<lparr>heap := (heap st)(settings st := Some (s\<lparr>s_apiKeys := Some newSettings\<rparr>))\<rparr>)"

datatype settings_response = SettingsJson settings_obj | SettingsError

text \<open>
  \<open>GET /api/settings\<close>. The local variable \<open>settings\<close> holds the reference that
  \<open>getSettings\<close> returns; the two assignments write through it into the heap, and the
  response is the object at that address as it then is.
\<close>

definition get_settings_route :: "MemStorage \<Rightarrow> MemStorage \<times> settings_response" where
  "get_settings_route st =
     (let a = getSettings st in
      case heap st a of
        None \<Rightarrow> (st, SettingsError)
      | Some s \<Rightarrow>
          (let h1 = (case s_apiKeys s of
                       None \<Rightarrow> heap st
                     | Some k \<Rightarrow>
                         (heap st)(a := Some (s\<lparr>s_apiKeys := Some
                            \<lparr>openaiApiKey = Some (if truthy (openaiApiKey k) then mask31 else []),
                             stripeSecretKey =
                               Some (if truthy (stripeSecretKey k) then mask31 else []),
                             stripeWebhookSecret =
                               Some (if truthy (stripeWebhookSecret k) then mask31 else [])\<rparr>\<rparr>)));
               h2 = (case h1 a of
                       None \<Rightarrow> h1
                     | Some s1 \<Rightarrow>
                         (case s_email s1 of
                            None \<Rightarrow> h1
                          | Some em \<Rightarrow>
                              if truthy (smtpPassword em)
                              then h1(a := Some (s1\<lparr>s_email :=
                                     Some (em\<lparr>smtpPassword := Some mask13\<rparr>)\<rparr>))
                              else h1))
           in (st\<lparr>heap := h2\<rparr>,
               (case h2 a of None \<Rightarrow> SettingsError | Some s2 \<Rightarrow> SettingsJson s2))))"

section \<open>Sequences of operations\<close>

text \<open>
  The server: the store, and the processing requests that wait for their generation call,
  in the order they came.
\<close>

record server =
  store :: MemStorage
  waiting :: "waiting_request list"

definition new_server :: server where
  "new_server = \<lparr>store = new_MemStorage, waiting = []\<rparr>"

text \<open>
  What happens to the server: an order creation request, a webhook delivery as it reaches
  the handler, a processing request (with the provider that will answer its generation call),
  and the settling of the generation call of the \<open>k\<close>-th waiting request. Each carries its
  clock reading.
\<close>

datatype operation =
    Create create_request int
  | Webhook webhook_request int
  | Process "string \<Rightarrow> int \<Rightarrow> thrown + completion" string int
  | Generated nat int

text \<open>
  One operation: the new server, the response if one is sent, and the effects. A processing
  request that passes the status check is not answered yet; it joins the waiting requests.
\<close>

definition step ::
  "(string \<Rightarrow> bool) \<Rightarrow> config \<Rightarrow> (payload \<Rightarrow> string option \<Rightarrow> string \<Rightarrow> thrown + stripe_event) \<Rightarrow>
   server \<Rightarrow> operation \<Rightarrow> server \<times> response option \<times> effect list" where
  "step isEmail cfg constructEvent sv op =
     (case op of
        Create req now \<Rightarrow>
          (case create_order_route isEmail cfg (store sv) req now of
             (st, r, e) \<Rightarrow> (sv\<lparr>store := st\<rparr>, Some r, e))
      | Webhook req now \<Rightarrow>
          (case webhook constructEvent cfg (store sv) req now of
             (st, r, e) \<Rightarrow> (sv\<lparr>store := st\<rparr>, Some r, e))
      | Process openai idParam now \<Rightarrow>
          (case process_route openai (store sv) idParam now of
             (st, Inl r, e) \<Rightarrow> (sv\<lparr>store := st\<rparr>, Some r, e)
           | (st, Inr w, e) \<Rightarrow> (\<lparr>store = st, waiting = waiting sv @ [w]\<rparr>, None, e))
      | Generated k now \<Rightarrow>
          if k < length (waiting sv)
          then (case process_finish (store sv) (waiting sv ! k) now of
                  (st, r, e) \<Rightarrow>
                    (\<lparr>store = st, waiting = take k (waiting sv) @ drop (Suc k) (waiting sv)\<rparr>,
                     Some r, e))
          else (sv, None, []))"

fun run ::
  "(string \<Rightarrow> bool) \<Rightarrow> config \<Rightarrow> (payload \<Rightarrow> string option \<Rightarrow> string \<Rightarrow> thrown + stripe_event) \<Rightarrow>
   server \<Rightarrow> operation list \<Rightarrow> server \<times> effect list" where
  "run isEmail cfg constructEvent sv [] = (sv, [])"
| "run isEmail cfg constructEvent sv (op # ops) =
     (case step isEmail cfg constructEvent sv op of
        (sv1, r, e) \<Rightarrow>
          (case run isEmail cfg constructEvent sv1 ops of (sv2, es) \<Rightarrow> (sv2, e @ es)))"

text \<open>Every key of the order map lies below the id counter, as in every store the code builds.\<close>

definition ids_below_counter :: "MemStorage \<Rightarrow> bool" where
  "ids_below_counter st = (\<forall>k \<in> fst ` set (orders st). k < orderIdCounter st)"



fun is_received_mail :: "effect \<Rightarrow> bool" where
  "is_received_mail (SendEmail rcpt received) = True"
| "is_received_mail e = False"

fun is_generation_call :: "effect \<Rightarrow> bool" where
  "is_generation_call (GenerateContent tp wc) = True"
| "is_generation_call e = False"

text \<open>
  Every stored order has a content and an API cost that are not \<open>null\<close>.
\<close>

definition both_present :: "MemStorage \<Rightarrow> bool" where
  "both_present st =
     (\<forall>order \<in> snd ` set (orders st). content order \<noteq> None \<and> apiCost order \<noteq> None)"

text \<open>
  The result of the generation client when the operation is the settling of a generation
  call that a processing request made for order \<open>i\<close> (which was \<open>pending\<close> when the request
  came) and the generation succeeded; \<open>None\<close> in every other case.
\<close>

fun successful_generation :: "server \<Rightarrow> operation \<Rightarrow> int \<Rightarrow> (string \<times> int) option" where
  "successful_generation sv (Generated k now) i =
     (if k < length (waiting sv) \<and> w_orderId (waiting sv ! k) = i
      then (case w_result (waiting sv ! k) of
              Inr res \<Rightarrow> Some res
            | Inl err \<Rightarrow> None)
      else None)"
| "successful_generation sv op i = None"

section \<open>The lifecycle states of the specification\<close>

text \<open>
  The specification has five states. An order that is \<open>pending\<close> is \<open>Created\<close> while no
  payment intent is recorded (\<open>null\<close> or the empty string of creation) and \<open>PaymentConfirmed\<close>
  once one is.
\<close>

datatype lifecycle = Created | PaymentConfirmed | Processing | Complete | Failed

definition lifecycle_state :: "Order \<Rightarrow> lifecycle" where
  "lifecycle_state order =
     (case status order of
        PENDING \<Rightarrow>
          (if stripePaymentIntentId order = None \<or> stripePaymentIntentId order = Some []
           then Created else PaymentConfirmed)
      | PROCESSING \<Rightarrow> Processing
      | COMPLETE \<Rightarrow> Complete
      | FAILED \<Rightarrow> Failed)"

section \<open>Concrete configurations, stores and environments\<close>

definition dev_config :: config where
  "dev_config =
     \<lparr>NODE_ENV = Some ''development'', PRICE_PER_WORD_CENTS = 5,
      STRIPE_WEBHOOK_SECRET = ''whsec_test'', SMTP_HOST = [], SMTP_USER = [],
      SMTP_PASSWORD = [], SMTP_SENDER = ''noreply@contentcraft.com''\<rparr>"

definition prod_config :: config where
  "prod_config =
     \<lparr>NODE_ENV = Some ''production'', PRICE_PER_WORD_CENTS = 5,
      STRIPE_WEBHOOK_SECRET = ''whsec_live'', SMTP_HOST = ''smtp.example.com'',
      SMTP_USER = ''mailer'', SMTP_PASSWORD = ''secret'',
      SMTP_SENDER = ''noreply@contentcraft.com''\<rparr>"

text \<open>
  A stand-in for Stripe's verification. A raw body verifies when the header is \<open>t=1,v1=\<close>
  followed by the secret: a body that starts with \<open>pi_\<close> is then a failed payment intent of
  that id, any other body a completed checkout session with the body as \<open>metadata.orderId\<close>
  and payment intent \<open>pi_1\<close>. A parsed body never verifies.
\<close>

fun toy_constructEvent :: "payload \<Rightarrow> string option \<Rightarrow> string \<Rightarrow> thrown + stripe_event" where
  "toy_constructEvent (RawBody raw) sig secret =
     (if sig = Some (''t=1,v1='' @ secret)
      then Inr (if take 3 raw = ''pi_'' then PaymentIntentPaymentFailed raw
                else CheckoutSessionCompleted (Some raw) (Some ''pi_1''))
      else Inl (Error ''No signatures found matching the expected signature for payload''))"
| "toy_constructEvent (ParsedBody v) sig secret =
     Inl (Error ''No signatures found matching the expected signature for payload'')"

text \<open>A stand-in for the body parsers: an empty body is refused, any other is parsed.\<close>

definition toy_bodyParser :: "http_request \<Rightarrow> response + jsval" where
  "toy_bodyParser hreq =
     (if hr_body hreq = [] then Inl (Response 400 (Message ''Unexpected end of JSON input''))
      else Inr (JObj [(''raw'', JStr (hr_body hreq))]))"

text \<open>A stand-in for the email test: an at sign, no comma, no double quote.\<close>

definition toy_isEmail :: "string \<Rightarrow> bool" where
  "toy_isEmail e = (CHR ''@'' \<in> set e \<and> CHR '','' \<notin> set e \<and> CHR 0x22 \<notin> set e)"

definition solar_request :: create_request where
  "solar_request =
     \<lparr>req_topic = JStr ''solar panels'', req_wordCount = JNum 500,
      req_customerEmail = JStr ''a@b.com''\<rparr>"

text \<open>
  The order that the creation request for solar panels stores at time 1000 in a new store,
  and the store and server that hold it.
\<close>

definition solar_order :: Order where
  "solar_order =
     \<lparr>order_id = 1, status = PENDING, topic = ''solar panels'', wordCount = 500, price = 2500,
      apiCost = Some 0, content = Some [], customerEmail = ''a@b.com'',
      stripePaymentIntentId = Some [], createdAt = 1000, updatedAt = 1000\<rparr>"

definition solar_store :: MemStorage where
  "solar_store = new_MemStorage\<lparr>orders := [(1, solar_order)], orderIdCounter := 2\<rparr>"

definition solar_server :: server where
  "solar_server = \<lparr>store = solar_store, waiting = []\<rparr>"

text \<open>A new store in which the price per word has been set to 0.\<close>

definition free_store :: MemStorage where
  "free_store =
     new_MemStorage\<lparr>heap := (\<lambda>a. if a = 0
        then Some (default_settings\<lparr>s_pricing := Some \<lparr>pricePerWord = Some 0\<rparr>\<rparr>) else None)\<rparr>"

text \<open>
  Stripe's deliveries of a completed checkout session for order 1 and of a failed payment
  intent, signed for the test secret; and the same deliveries as the handler gets them.
\<close>

definition completed_delivery :: http_request where
  "completed_delivery =
     \<lparr>hr_contentType = Some ''application/json'', hr_body = ''1'',
      hr_signature = Some ''t=1,v1=whsec_test''\<rparr>"

definition completed_request :: webhook_request where
  "completed_request =
     \<lparr>wh_body = ParsedBody (JObj [(''raw'', JStr ''1'')]),
      wh_signature = Some ''t=1,v1=whsec_test''\<rparr>"


text \<open>Providers: one that answers with a text and usage, one that answers with \<open>null\<close>
  content and 70 prompt tokens, one that fails.\<close>

definition good_openai :: "string \<Rightarrow> int \<Rightarrow> thrown + completion" where
  "good_openai tp wc = Inr \<lparr>choices = [Some ''Solar panels turn light into power.''],
                            usage = Some (100, 400)\<rparr>"

definition null_openai :: "string \<Rightarrow> int \<Rightarrow> thrown + completion" where
  "null_openai tp wc = Inr \<lparr>choices = [None], usage = Some (70, 0)\<rparr>"

definition down_openai :: "string \<Rightarrow> int \<Rightarrow> thrown + completion" where
  "down_openai tp wc = Inl (Error ''503 Service Unavailable'')"

definition brief_openai :: "string \<Rightarrow> int \<Rightarrow> thrown + completion" where
  "brief_openai tp wc = Inr \<lparr>choices = [Some ''Solar panels.''], usage = None\<rparr>"

text \<open>
  The servers reached from the new one by creating the solar order, requesting its
  processing and letting the generation settle, with success and with failure.
\<close>

definition done_server :: server where
  "done_server =
     fst (run toy_isEmail dev_config toy_constructEvent new_server
            [Create solar_request 1000, Process brief_openai ''1'' 2000, Generated 0 2500])"

definition broken_server :: server where
  "broken_server =
     fst (run toy_isEmail dev_config toy_constructEvent new_server
            [Create solar_request 1000, Process down_openai ''1'' 2000, Generated 0 2500])"

text \<open>The server that holds the solar order while its generation call is waiting.\<close>

definition asked_server :: server where
  "asked_server =
     fst (step toy_isEmail dev_config toy_constructEvent solar_server
            (Process good_openai ''1'' 2000))"


text \<open>A store in which an administrator has saved the three API keys.\<close>

definition keys_store :: MemStorage where
  "keys_store =
     updateSettings_apiKeys new_MemStorage
       \<lparr>openaiApiKey = Some ''sk-live-123'', stripeSecretKey = Some ''sk_live_456'',
        stripeWebhookSecret = Some ''whsec_789''\<rparr>"


definition toy_startDate :: "dateFilter \<Rightarrow> int \<Rightarrow> int" where
  "toy_startDate d now = now - 86400000"

text \<open>A store of \<open>n\<close> orders, created one second apart.\<close>

definition solar_insert :: InsertOrder where
  "solar_insert =
     \<lparr>ins_topic = ''solar panels'', ins_wordCount = 500, ins_price = 2500,
      ins_customerEmail = ''a@b.com'', ins_stripePaymentIntentId = Some []\<rparr>"

fun store_with :: "nat \<Rightarrow> MemStorage" where
  "store_with 0 = new_MemStorage"
| "store_with (Suc n) = fst (createOrder (store_with n) solar_insert (1000 * int (Suc n)))"

definition page_of :: "int \<Rightarrow> list_options" where
  "page_of p = no_options\<lparr>opt_page := Some p, opt_limit := Some 10\<rparr>"

definition forged_request :: webhook_request where
  "forged_request =
     \<lparr>wh_body = ParsedBody (JObj [(''raw'', JStr ''1'')]), wh_signature = Some ''forged''\<rparr>"

definition failing_transport :: "config \<Rightarrow> thrown + unit" where
  "failing_transport cfg = Inl (Error ''connect ECONNREFUSED'')"

definition plain_content :: "EmailTemplate \<Rightarrow> thrown + string" where
  "plain_content t = Inr ''<p>No content available for this template.</p>''"

definition rejecting_sendMail :: "unit \<Rightarrow> mailOptions \<Rightarrow> thrown + unit" where
  "rejecting_sendMail tr opts = Inl (Error ''Invalid login'')"

definition received_mail :: EmailData where
  "received_mail =
     \<lparr>to = ''a@b.com'', subject = ''Order Received - Your Content is Being Generated'',
      template = received\<rparr>"

section \<open>Bad signatures are rejected before anything else happens\<close>

text \<open>
  C6. When \<open>constructEvent\<close> throws for the payload, header and configured secret, the
  webhook answers 400 with the error text, performs no effect at all (no order lookup, no
  update, no notification, no processing trigger) and returns the store it was given; the
  event handler is not reached.
\<close>

theorem webhook_bad_signature_rejected:
  assumes "constructEvent (wh_body req) (wh_signature req) (STRIPE_WEBHOOK_SECRET cfg) = Inl err"
  shows "webhook constructEvent cfg st req now
           = (st, Response 400 (SendText (''Webhook Error: '' @ message_of err)), [])"
  using assms by (simp add: webhook_def)

theorem webhook_bad_signature_rejected_witness:
  "toy_constructEvent (wh_body forged_request) (wh_signature forged_request)
       (STRIPE_WEBHOOK_SECRET dev_config)
     = Inl (Error ''No signatures found matching the expected signature for payload'')
   \<and> webhook toy_constructEvent dev_config solar_store forged_request 2000
     = (solar_store,
        Response 400 (SendText (''Webhook Error: ''
           @ ''No signatures found matching the expected signature for payload'')), [])"
proof -
  have h: "toy_constructEvent (wh_body forged_request) (wh_signature forged_request)
       (STRIPE_WEBHOOK_SECRET dev_config)
     = Inl (Error ''No signatures found matching the expected signature for payload'')"
    by (simp add: dev_config_def forged_request_def)
  from webhook_bad_signature_rejected
         [where constructEvent = toy_constructEvent and req = forged_request
            and cfg = dev_config and st = solar_store and now = 2000, OF h] h
  show ?thesis by simp
qed

section \<open>The notification client never raises\<close>

text \<open>
  C9. Whatever the configuration, the transport, the renderer and the message, the promise
  returned by \<open>sendEmail\<close> resolves: a throw of any of the three steps is caught and logged.
  When \<open>NODE_ENV\<close> is not \<open>production\<close> and the SMTP host, user or password is empty, the
  call only writes its two console lines, makes no transport call and resolves.
\<close>

theorem sendEmail_never_raises:
  "fst (sendEmail cfg getTransport getEmailContent sendMail emailData) = Inr ()
   \<and> (NODE_ENV cfg \<noteq> Some ''production''
        \<and> (SMTP_HOST cfg = [] \<or> SMTP_USER cfg = [] \<or> SMTP_PASSWORD cfg = [])
      \<longrightarrow> sendEmail cfg getTransport getEmailContent sendMail emailData
            = (Inr (), [LogSkipped, LogWouldHaveSent emailData]))"
  by (simp add: sendEmail_def try_catch_def Let_def split: sum.split)

theorem sendEmail_never_raises_witness:
  "NODE_ENV dev_config \<noteq> Some ''production''
   \<and> (SMTP_HOST dev_config = [] \<or> SMTP_USER dev_config = [] \<or> SMTP_PASSWORD dev_config = [])
   \<and> sendEmail dev_config failing_transport plain_content rejecting_sendMail received_mail
       = (Inr (), [LogSkipped, LogWouldHaveSent received_mail])
   \<and> fst (sendEmail prod_config (\<lambda>c. Inr ()) plain_content rejecting_sendMail received_mail)
       = Inr ()"
proof -
  have h: "NODE_ENV dev_config \<noteq> Some ''production''
     \<and> (SMTP_HOST dev_config = [] \<or> SMTP_USER dev_config = [] \<or> SMTP_PASSWORD dev_config = [])"
    by (simp add: dev_config_def)
  from sendEmail_never_raises
         [of dev_config failing_transport plain_content rejecting_sendMail received_mail]
       sendEmail_never_raises
         [of prod_config "\<lambda>c. Inr ()" plain_content rejecting_sendMail received_mail]
       h
  show ?thesis by blast
qed

section \<open>The order store under the operations\<close>

lemma map_of_updateOrder:
  "map_of (orders (fst (updateOrder st j u now))) i =
     (case map_of (orders st) j of None \<Rightarrow> map_of (orders st) i
      | Some order \<Rightarrow> if i = j then Some (apply_update order u now) else map_of (orders st) i)"
  by (simp add: updateOrder_def update_conv' Let_def split: option.split)

lemma getOrder_updateOrder:
  "getOrder (fst (updateOrder st j u now)) i =
     (case getOrder st j of None \<Rightarrow> getOrder st i
      | Some order \<Rightarrow> if i = j then Some (apply_update order u now) else getOrder st i)"
  by (simp add: getOrder_def map_of_updateOrder split: option.split)

lemma map_of_key: "map_of al k = Some v \<Longrightarrow> k \<in> fst ` set al"
  by (induction al) (auto split: if_splits)





lemma getOrder_createOrder:
  assumes "ids_below_counter st" "getOrder st i = Some order"
  shows "getOrder (fst (createOrder st ins now)) i = Some order"
proof -
  from assms(2) have "i \<in> fst ` set (orders st)" by (auto simp: getOrder_def dest: map_of_key)
  with assms(1) have "i \<noteq> orderIdCounter st" by (auto simp: ids_below_counter_def)
  with assms(2) show ?thesis by (simp add: getOrder_def createOrder_def Let_def update_conv')
qed

lemma fst_create_order_route:
  "fst (create_order_route isEmail cfg st req now) = st
   \<or> (\<exists>ins. fst (create_order_route isEmail cfg st req now) = fst (createOrder st ins now))"
  by (auto simp: create_order_route_def Let_def split: option.split prod.split)
     (metis fst_conv)

text \<open>A delivery whose body is a parsed value is answered 400 and changes nothing.\<close>

lemma webhook_parsed_body:
  assumes "verifies_raw_only constructEvent" and "wh_body req = ParsedBody v"
  shows "webhook constructEvent cfg st req now
           = (st, Response 400 (SendText (''Webhook Error: '' @ message_of
                (projl (constructEvent (ParsedBody v) (wh_signature req)
                          (STRIPE_WEBHOOK_SECRET cfg))))), [])"
proof -
  from assms(1) have "isl (constructEvent (ParsedBody v) (wh_signature req)
      (STRIPE_WEBHOOK_SECRET cfg))"
    unfolding verifies_raw_only_def by blast
  then show ?thesis using assms(2) by (auto simp: webhook_def isl_def)
qed

text \<open>The steps on the store and on the waiting requests.\<close>

lemma step_Create:
  "fst (step isEmail cfg constructEvent sv (Create req now))
     = sv\<lparr>store := fst (create_order_route isEmail cfg (store sv) req now)\<rparr>"
  by (simp add: step_def split: prod.split)















lemma fst_run_Cons:
  "fst (run isEmail cfg constructEvent sv (op # ops))
     = fst (run isEmail cfg constructEvent (fst (step isEmail cfg constructEvent sv op)) ops)"
  by (simp split: prod.split)




text \<open>
  The solar store is the store after the creation request for solar panels at time 1000 in
  a new store.
\<close>

lemma solar_store_reached:
  "fst (create_order_route toy_isEmail dev_config new_MemStorage solar_request 1000)
     = solar_store"
  by (simp add: create_order_route_def createOrderRequestSchema_def solar_request_def
        toy_isEmail_def js_length_def utf16_units_def new_MemStorage_def getSettings_def
        default_settings_def pricePerWord_or_default_def dev_config_def createOrder_def
        solar_store_def solar_order_def Let_def)

lemma solar_server_reached:
  "fst (run toy_isEmail dev_config toy_constructEvent new_server [Create solar_request 1000])
     = solar_server"
  by (subst fst_run_Cons)
     (simp add: step_Create new_server_def solar_server_def solar_store_reached)

section \<open>Terminal states\<close>



section \<open>Payment-succeeded events\<close>

text \<open>
  C1 fails on the code, at every delivery. The handler is given the parsed body, for which
  Stripe's verification throws. So a request to \<open>POST /api/webhook\<close> is answered by the
  body parser or with 400 and the text of the verification error, the store is not touched
  and no effect is performed: no order lookup, no recording of the payment intent, no
  order-received notification, no processing trigger. Two deliveries of one event leave the
  store as it was and make no notification attempt, where C1 has exactly one recording and
  exactly one attempt.
\<close>

theorem webhook_as_wired_rejects_every_delivery:
  assumes "verifies_raw_only constructEvent"
  shows "(case post_api_webhook bodyParser constructEvent cfg st hreq ta of (st1, r1, e1) \<Rightarrow>
          (case post_api_webhook bodyParser constructEvent cfg st1 hreq tb of (st2, r2, e2) \<Rightarrow>
             st1 = st \<and> st2 = st \<and> e1 = [] \<and> e2 = []
           \<and> length (filter is_received_mail (e1 @ e2)) = 0
           \<and> r1 = (case bodyParser hreq of
                     Inl resp \<Rightarrow> resp
                   | Inr v \<Rightarrow>
                       Response 400 (SendText (''Webhook Error: '' @ message_of
                         (projl (constructEvent (ParsedBody v) (hr_signature hreq)
                                   (STRIPE_WEBHOOK_SECRET cfg))))))
           \<and> r2 = r1))"
proof (cases "bodyParser hreq")
  case (Inl resp)
  then show ?thesis by (simp add: post_api_webhook_def)
next
  case (Inr v)
  have "webhook constructEvent cfg st
          \<lparr>wh_body = ParsedBody v, wh_signature = hr_signature hreq\<rparr> now
        = (st, Response 400 (SendText (''Webhook Error: '' @ message_of
             (projl (constructEvent (ParsedBody v) (hr_signature hreq)
                       (STRIPE_WEBHOOK_SECRET cfg))))), [])" for now
    using webhook_parsed_body [OF assms, of
        "\<lparr>wh_body = ParsedBody v, wh_signature = hr_signature hreq\<rparr>" v cfg st now]
    by simp
  with Inr show ?thesis by (simp add: post_api_webhook_def)
qed

theorem webhook_as_wired_rejects_every_delivery_witness:
  "verifies_raw_only toy_constructEvent
   \<and> toy_constructEvent (RawBody (hr_body completed_delivery))
        (hr_signature completed_delivery) (STRIPE_WEBHOOK_SECRET dev_config)
       = Inr (CheckoutSessionCompleted (Some ''1'') (Some ''pi_1''))
   \<and> map_option lifecycle_state (getOrder solar_store 1) = Some Created
   \<and> (case post_api_webhook toy_bodyParser toy_constructEvent dev_config solar_store
             completed_delivery 2000 of
        (st1, r1, e1) \<Rightarrow>
          (case post_api_webhook toy_bodyParser toy_constructEvent dev_config st1
                  completed_delivery 3000 of
             (st2, r2, e2) \<Rightarrow>
               st2 = solar_store
             \<and> r1 = Response 400 (SendText (''Webhook Error: ''
                      @ ''No signatures found matching the expected signature for payload''))
             \<and> r2 = r1
             \<and> length (filter is_received_mail (e1 @ e2)) = 0))"
proof -
  have v: "verifies_raw_only toy_constructEvent"
    by (simp add: verifies_raw_only_def)
  have g: "toy_constructEvent (RawBody (hr_body completed_delivery))
        (hr_signature completed_delivery) (STRIPE_WEBHOOK_SECRET dev_config)
       = Inr (CheckoutSessionCompleted (Some ''1'') (Some ''pi_1''))"
    by (simp add: completed_delivery_def dev_config_def)
  have c: "map_option lifecycle_state (getOrder solar_store 1) = Some Created"
    by code_simp
  have p: "toy_bodyParser completed_delivery = Inr (JObj [(''raw'', JStr ''1'')])"
    by (simp add: toy_bodyParser_def completed_delivery_def)
  from webhook_as_wired_rejects_every_delivery
         [where constructEvent = toy_constructEvent and bodyParser = toy_bodyParser
            and cfg = dev_config and st = solar_store and hreq = completed_delivery
            and ta = 2000 and tb = 3000, OF v] v g c
  show ?thesis by (auto simp: p split: prod.splits)
qed

section \<open>The processing request and its status guard\<close>

text \<open>
  C3, as the code has it. For an existing order whose status is not \<open>pending\<close>, the
  processing request changes nothing, calls neither the store's update nor the generation
  client, and is answered 400 with \<open>Order is already\<close> and the status. Of two requests in
  succession for the same order, the second leaves the store as it finds it, makes no
  generation call and is answered 400, whether it comes while the generation call of the
  first is waiting or after that call has settled; the two requests make at most one
  generation call.
\<close>

theorem process_request_guard:
  assumes "parseInt idParam = Some i" and "getOrder st i = Some order"
  shows "(status order \<noteq> PENDING \<longrightarrow>
            process_route openai st idParam now
              = (st, Inl (Response 400
                            (Message (''Order is already '' @ status_text (status order)))),
                 [CallGetOrder i]))
       \<and> (case process_route openai st idParam ta of (st1, r1, e1) \<Rightarrow>
            (case process_route again st1 idParam tb of (st2, r2, e2) \<Rightarrow>
               st2 = st1 \<and> isl r2 \<and> code_of (projl r2) = 400 \<and> e2 = [CallGetOrder i]
               \<and> length (filter is_generation_call (e1 @ e2)) \<le> 1))
       \<and> (\<forall>w. fst (snd (process_route openai st idParam ta)) = Inr w \<longrightarrow>
            (case process_finish (fst (process_route openai st idParam ta)) w tc of
               (st1, r1, e1) \<Rightarrow>
                 (case process_route again st1 idParam tb of (st2, r2, e2) \<Rightarrow>
                    st2 = st1 \<and> isl r2 \<and> code_of (projl r2) = 400 \<and> e2 = [CallGetOrder i])))"
  using assms
  by (auto simp: process_route_def process_begin_def process_finish_def
        getOrder_updateOrder apply_update_def no_update_def Let_def
      split: sum.split prod.split)

text \<open>
  C3 as stated fails in the answer: the request on an order that is already \<open>complete\<close> or
  \<open>failed\<close> is answered with the error status 400, not treated as already advanced.
\<close>

theorem process_request_answers_error_counterexample:
  "map_option lifecycle_state (getOrder (store done_server) 1) = Some Complete
   \<and> fst (snd (process_route good_openai (store done_server) ''1'' 3000))
       = Inl (Response 400 (Message ''Order is already complete''))
   \<and> code_of (Response 400 (Message ''Order is already complete'')) = 400
   \<and> map_option lifecycle_state (getOrder (store broken_server) 1) = Some Failed
   \<and> fst (snd (process_route good_openai (store broken_server) ''1'' 3000))
       = Inl (Response 400 (Message ''Order is already failed''))"
  by code_simp

theorem process_request_guard_witness:
  "parseInt ''1'' = Some 1
   \<and> map_option status (getOrder (store done_server) 1) = Some COMPLETE
   \<and> fst (snd (process_route good_openai (store done_server) ''1'' 3000))
       = Inl (Response 400 (Message ''Order is already complete''))
   \<and> getOrder solar_store 1 = Some solar_order
   \<and> (case process_route down_openai solar_store ''1'' 2000 of (st1, r1, e1) \<Rightarrow>
        (case process_route good_openai st1 ''1'' 2100 of (st2, r2, e2) \<Rightarrow>
           st2 = st1 \<and> isl r2 \<and> code_of (projl r2) = 400 \<and> e2 = [CallGetOrder 1]
           \<and> length (filter is_generation_call (e1 @ e2)) \<le> 1))
   \<and> filter is_generation_call (snd (snd (process_route down_openai solar_store ''1'' 2000)))
       = [GenerateContent ''solar panels'' 500]
   \<and> fst (snd (process_route down_openai solar_store ''1'' 2000))
       = Inr \<lparr>w_orderId = 1, w_order = solar_order,
              w_result = Inl (Error ''Content generation failed: 503 Service Unavailable'')\<rparr>
   \<and> (case process_finish (fst (process_route down_openai solar_store ''1'' 2000))
              \<lparr>w_orderId = 1, w_order = solar_order,
               w_result = Inl (Error ''Content generation failed: 503 Service Unavailable'')\<rparr>
              2500 of
        (st1, r1, e1) \<Rightarrow>
          (case process_route good_openai st1 ''1'' 2600 of (st2, r2, e2) \<Rightarrow>
             st2 = st1 \<and> isl r2 \<and> code_of (projl r2) = 400 \<and> e2 = [CallGetOrder 1]))"
proof -
  have a: "parseInt ''1'' = Some 1"
    by (simp add: parseInt_def is_ws_def is_digit_def digits_val_def)
  have b: "map_option status (getOrder (store done_server) 1) = Some COMPLETE"
    by code_simp
  then obtain order where o: "getOrder (store done_server) 1 = Some order"
    "status order = COMPLETE" by auto
  have c: "getOrder solar_store 1 = Some solar_order"
    by code_simp
  have d: "filter is_generation_call
      (snd (snd (process_route down_openai solar_store ''1'' 2000)))
       = [GenerateContent ''solar panels'' 500]"
    by code_simp
  have e: "fst (snd (process_route down_openai solar_store ''1'' 2000))
       = Inr \<lparr>w_orderId = 1, w_order = solar_order,
              w_result = Inl (Error ''Content generation failed: 503 Service Unavailable'')\<rparr>"
    by code_simp
  from process_request_guard [OF a o(1), where openai = good_openai and now = 3000] o(2)
  have 1: "fst (snd (process_route good_openai (store done_server) ''1'' 3000))
       = Inl (Response 400 (Message ''Order is already complete''))"
    by simp
  note g = process_request_guard [OF a c, where openai = down_openai and again = good_openai
      and ta = 2000 and now = 2000]
  from g [where tb = 2100 and tc = 2500, THEN conjunct2, THEN conjunct1]
  have 2: "(case process_route down_openai solar_store ''1'' 2000 of (st1, r1, e1) \<Rightarrow>
        (case process_route good_openai st1 ''1'' 2100 of (st2, r2, e2) \<Rightarrow>
           st2 = st1 \<and> isl r2 \<and> code_of (projl r2) = 400 \<and> e2 = [CallGetOrder 1]
           \<and> length (filter is_generation_call (e1 @ e2)) \<le> 1))" .
  from g [where tb = 2600 and tc = 2500, THEN conjunct2, THEN conjunct2, rule_format, OF e]
  have 3: "(case process_finish (fst (process_route down_openai solar_store ''1'' 2000))
              \<lparr>w_orderId = 1, w_order = solar_order,
               w_result = Inl (Error ''Content generation failed: 503 Service Unavailable'')\<rparr>
              2500 of
        (st1, r1, e1) \<Rightarrow>
          (case process_route good_openai st1 ''1'' 2600 of (st2, r2, e2) \<Rightarrow>
             st2 = st1 \<and> isl r2 \<and> code_of (projl r2) = 400 \<and> e2 = [CallGetOrder 1]))" .
  from a b c d e 1 2 3 show ?thesis by (intro conjI)
qed

section \<open>Order creation\<close>

text \<open>
  C4, as the code has it. With a settings object in place, a request whose topic has a
  \<open>length\<close> of at least three (UTF-16 code units), whose word count lies in 100..5000 and
  whose email passes the email test stores a new \<open>pending\<close> order with no payment recorded
  (\<open>Created\<close>) under the next id, priced at the word count times the settings' price per
  word when that is set and not zero, and times the configured default
  \<open>PRICE_PER_WORD_CENTS\<close> otherwise. A request whose word count is a number outside
  100..5000, whose email is a string that fails the email test, or whose topic is a string
  of \<open>length\<close> below three, is answered 400 and leaves the store as it was, with no store
  call.
\<close>

theorem create_order_route_spec:
  assumes "heap st (getSettings st) = Some s"
  shows "(3 \<le> js_length t \<and> 100 \<le> w \<and> w \<le> 5000 \<and> isEmail e \<longrightarrow>
           (let newOrder =
                  \<lparr>order_id = orderIdCounter st, status = PENDING, topic = t, wordCount = w,
                   price = w * (case s_pricing s of
                                  None \<Rightarrow> PRICE_PER_WORD_CENTS cfg
                                | Some p \<Rightarrow>
                                    (case pricePerWord p of
                                       None \<Rightarrow> PRICE_PER_WORD_CENTS cfg
                                     | Some n \<Rightarrow> if n \<noteq> 0 then n else PRICE_PER_WORD_CENTS cfg)),
                   apiCost = Some 0, content = Some [], customerEmail = e,
                   stripePaymentIntentId = Some [], createdAt = now, updatedAt = now\<rparr>
            in create_order_route isEmail cfg st
                 \<lparr>req_topic = JStr t, req_wordCount = JNum w, req_customerEmail = JStr e\<rparr> now
               = (st\<lparr>orders := AList.update (orderIdCounter st) newOrder (orders st),
                     orderIdCounter := orderIdCounter st + 1\<rparr>,
                  Response 200 (OrderCreated (orderIdCounter st)
                     (''/api/checkout/'' @ show_int (orderIdCounter st))),
                  [CallCreateOrder])
             \<and> lifecycle_state newOrder = Created))
       \<and> ((req_wordCount req = JNum w \<and> (w < 100 \<or> 5000 < w))
            \<or> (req_customerEmail req = JStr e \<and> \<not> isEmail e) \<longrightarrow>
           create_order_route isEmail cfg st req now = (st, Response 400 ValidationFailed, []))
       \<and> (req_topic req = JStr t \<and> js_length t < 3 \<longrightarrow>
           create_order_route isEmail cfg st req now = (st, Response 400 ValidationFailed, []))"
  using assms
  by (auto simp: create_order_route_def createOrderRequestSchema_def createOrder_def
        pricePerWord_or_default_def lifecycle_state_def Let_def
      split: jsval.split option.split)

text \<open>
  C4 as stated fails where the settings' price per word is 0: the order for 500 words is
  priced 2500, the default of 5 per word, and not 500 times 0.
\<close>

theorem create_order_price_counterexample:
  "map_option (map_option pricePerWord \<circ> s_pricing) (heap free_store (getSettings free_store))
     = Some (Some (Some 0))
   \<and> map_option price
        (getOrder (fst (create_order_route toy_isEmail dev_config free_store solar_request 1000)) 1)
     = Some 2500
   \<and> (2500 :: int) \<noteq> 500 * 0"
  by code_simp

theorem create_order_route_spec_witness:
  "heap new_MemStorage (getSettings new_MemStorage) = Some default_settings
   \<and> 3 \<le> js_length ''solar panels'' \<and> (100 :: int) \<le> 500 \<and> (500 :: int) \<le> 5000
   \<and> toy_isEmail ''a@b.com''
   \<and> map_option price
        (getOrder (fst (create_order_route toy_isEmail dev_config new_MemStorage solar_request 1000)) 1)
     = Some 2500
   \<and> req_wordCount (solar_request\<lparr>req_wordCount := JNum 99\<rparr>) = JNum 99 \<and> (99 :: int) < 100
   \<and> create_order_route toy_isEmail dev_config new_MemStorage
        (solar_request\<lparr>req_wordCount := JNum 99\<rparr>) 1000
     = (new_MemStorage, Response 400 ValidationFailed, [])
   \<and> req_customerEmail (solar_request\<lparr>req_customerEmail := JStr ''nobody''\<rparr>) = JStr ''nobody''
   \<and> \<not> toy_isEmail ''nobody''
   \<and> create_order_route toy_isEmail dev_config new_MemStorage
        (solar_request\<lparr>req_customerEmail := JStr ''nobody''\<rparr>) 1000
     = (new_MemStorage, Response 400 ValidationFailed, [])
   \<and> js_length [CHR 0xC3, CHR 0xA9, CHR 0xC3, CHR 0xA9] < 3
   \<and> 3 \<le> length [CHR 0xC3, CHR 0xA9, CHR 0xC3, CHR 0xA9]
   \<and> create_order_route toy_isEmail dev_config new_MemStorage
        (solar_request\<lparr>req_topic := JStr [CHR 0xC3, CHR 0xA9, CHR 0xC3, CHR 0xA9]\<rparr>) 1000
     = (new_MemStorage, Response 400 ValidationFailed, [])"
proof -
  have h: "heap new_MemStorage (getSettings new_MemStorage) = Some default_settings"
    by (simp add: new_MemStorage_def getSettings_def)
  have v: "3 \<le> js_length ''solar panels''" "(100 :: int) \<le> 500" "(500 :: int) \<le> 5000"
    "toy_isEmail ''a@b.com''" "\<not> toy_isEmail ''nobody''"
    "js_length [CHR 0xC3, CHR 0xA9, CHR 0xC3, CHR 0xA9] < 3"
    by (simp_all add: toy_isEmail_def js_length_def utf16_units_def)
  have r: "solar_request
     = \<lparr>req_topic = JStr ''solar panels'', req_wordCount = JNum 500,
        req_customerEmail = JStr ''a@b.com''\<rparr>"
    by (simp add: solar_request_def)
  have p: "(case s_pricing default_settings of
              None \<Rightarrow> PRICE_PER_WORD_CENTS dev_config
            | Some p \<Rightarrow>
                (case pricePerWord p of
                   None \<Rightarrow> PRICE_PER_WORD_CENTS dev_config
                 | Some n \<Rightarrow> if n \<noteq> 0 then n else PRICE_PER_WORD_CENTS dev_config)) = 5"
    by (simp add: default_settings_def)
  have c: "orderIdCounter new_MemStorage = 1" "orders new_MemStorage = []"
    by (simp_all add: new_MemStorage_def)
  from create_order_route_spec [OF h, where isEmail = toy_isEmail and cfg = dev_config
         and t = "''solar panels''" and w = 500 and e = "''a@b.com''" and now = 1000
         and req = solar_request] v
  have 1: "map_option price
        (getOrder (fst (create_order_route toy_isEmail dev_config new_MemStorage solar_request 1000)) 1)
     = Some 2500"
    by (simp add: r p c Let_def getOrder_def)
  from create_order_route_spec [OF h, where isEmail = toy_isEmail and cfg = dev_config
         and w = 99 and now = 1000
         and req = "solar_request\<lparr>req_wordCount := JNum 99\<rparr>"]
  have 2: "create_order_route toy_isEmail dev_config new_MemStorage
        (solar_request\<lparr>req_wordCount := JNum 99\<rparr>) 1000
     = (new_MemStorage, Response 400 ValidationFailed, [])"
    by simp
  from create_order_route_spec [OF h, where isEmail = toy_isEmail and cfg = dev_config
         and e = "''nobody''" and now = 1000
         and req = "solar_request\<lparr>req_customerEmail := JStr ''nobody''\<rparr>"] v
  have 3: "create_order_route toy_isEmail dev_config new_MemStorage
        (solar_request\<lparr>req_customerEmail := JStr ''nobody''\<rparr>) 1000
     = (new_MemStorage, Response 400 ValidationFailed, [])"
    by simp
  from create_order_route_spec [OF h, where isEmail = toy_isEmail and cfg = dev_config
         and t = "[CHR 0xC3, CHR 0xA9, CHR 0xC3, CHR 0xA9]" and now = 1000
         and req = "solar_request\<lparr>req_topic := JStr [CHR 0xC3, CHR 0xA9, CHR 0xC3, CHR 0xA9]\<rparr>"] v
  have 4: "create_order_route toy_isEmail dev_config new_MemStorage
        (solar_request\<lparr>req_topic := JStr [CHR 0xC3, CHR 0xA9, CHR 0xC3, CHR 0xA9]\<rparr>) 1000
     = (new_MemStorage, Response 400 ValidationFailed, [])"
    by simp
  from h v 1 2 3 4 show ?thesis by simp
qed

section \<open>Content and API cost\<close>

lemma set_update_cases:
  "x \<in> set (AList.update k v al) \<Longrightarrow> x = (k, v) \<or> x \<in> set al"
  by (induction al) (auto split: if_splits)

lemma both_present_updateOrder:
  assumes "both_present st"
    and "upd_content u \<noteq> Some None" and "upd_apiCost u \<noteq> Some None"
  shows "both_present (fst (updateOrder st j u now))"
proof (cases "map_of (orders st) j")
  case None
  then show ?thesis using assms(1) by (simp add: updateOrder_def)
next
  case (Some order)
  then have "(j, order) \<in> set (orders st)" by (rule map_of_SomeD)
  then have "order \<in> snd ` set (orders st)" by force
  with assms(1) have p: "content order \<noteq> None \<and> apiCost order \<noteq> None"
    unfolding both_present_def by blast
  have q: "content (apply_update order u now) \<noteq> None \<and> apiCost (apply_update order u now) \<noteq> None"
    using p assms(2,3) by (auto simp: apply_update_def split: option.split)
  show ?thesis using assms(1) q Some
    by (auto simp: both_present_def updateOrder_def Let_def dest!: set_update_cases)
qed

lemma both_present_createOrder:
  "both_present st \<Longrightarrow> both_present (fst (createOrder st ins now))"
  by (auto simp: both_present_def createOrder_def Let_def dest!: set_update_cases)

lemma step_both_present:
  assumes "both_present (store sv)"
  shows "both_present (store (fst (step isEmail cfg constructEvent sv op)))"
proof (cases op)
  case (Create req now)
  show ?thesis using assms fst_create_order_route [of isEmail cfg "store sv" req now]
    by (auto simp: Create step_Create intro: both_present_createOrder)
next
  case (Webhook req now)
  show ?thesis using assms
    by (auto simp: Webhook step_def webhook_def handle_event_def checkout_session_completed_def
        payment_intent_payment_failed_def Let_def no_update_def
      split: sum.split option.split stripe_event.split
      intro!: both_present_updateOrder)
next
  case (Process openai idParam now)
  show ?thesis using assms
    by (auto simp: Process step_def process_route_def process_begin_def Let_def no_update_def
      split: sum.split option.split prod.split
      intro!: both_present_updateOrder)
next
  case (Generated k now)
  show ?thesis using assms
    by (auto simp: Generated step_def process_finish_def Let_def no_update_def
      split: sum.split option.split prod.split
      intro!: both_present_updateOrder)
qed

lemma run_both_present:
  "both_present (store sv) \<Longrightarrow>
   both_present (store (fst (run isEmail cfg constructEvent sv ops)))"
proof (induction ops arbitrary: sv)
  case Nil
  then show ?case by simp
next
  case (Cons op ops)
  from Cons.prems have "both_present (store (fst (step isEmail cfg constructEvent sv op)))"
    by (rule step_both_present)
  from Cons.IH [OF this] show ?case by (simp only: fst_run_Cons)
qed

lemma getOrder_createOrder_new:
  assumes "ids_below_counter st" "getOrder st i = None"
    "getOrder (fst (createOrder st ins now)) i = Some order'"
  shows "content order' = Some [] \<and> apiCost order' = Some 0"
  using assms
  by (auto simp: getOrder_def createOrder_def Let_def update_conv' split: if_splits)

lemma step_frame_existing:
  assumes "ids_below_counter (store sv)" "getOrder (store sv) i = Some order"
    "getOrder (store (fst (step isEmail cfg constructEvent sv op))) i = Some order'"
  shows "(content order', apiCost order')
           = (case successful_generation sv op i of
                None \<Rightarrow> (content order, apiCost order)
              | Some (tx, cost) \<Rightarrow> (Some tx, Some cost))"
proof (cases op)
  case (Create req now)
  show ?thesis using assms getOrder_createOrder [OF assms(1,2)]
       fst_create_order_route [of isEmail cfg "store sv" req now]
    by (auto simp: Create step_Create)
next
  case (Webhook req now)
  show ?thesis using assms
    by (auto simp: Webhook step_def webhook_def handle_event_def checkout_session_completed_def
        payment_intent_payment_failed_def getOrder_updateOrder apply_update_def no_update_def Let_def
      split: sum.splits option.splits stripe_event.splits if_splits)
next
  case (Process openai idParam now)
  show ?thesis using assms
    by (auto simp: Process step_def process_route_def process_begin_def
         getOrder_updateOrder apply_update_def no_update_def Let_def
      split: sum.splits option.splits prod.splits if_splits)
next
  case (Generated k now)
  show ?thesis using assms
    by (auto simp: Generated step_def process_finish_def
         getOrder_updateOrder apply_update_def no_update_def Let_def
      split: sum.splits option.splits prod.splits if_splits)
qed

lemma step_frame_new:
  assumes "ids_below_counter (store sv)" "getOrder (store sv) i = None"
    "getOrder (store (fst (step isEmail cfg constructEvent sv op))) i = Some order'"
  shows "content order' = Some [] \<and> apiCost order' = Some 0"
proof (cases op)
  case (Create req now)
  show ?thesis using assms fst_create_order_route [of isEmail cfg "store sv" req now]
       getOrder_createOrder_new [OF assms(1,2)]
    by (auto simp: Create step_Create)
next
  case (Webhook req now)
  show ?thesis using assms
    by (auto simp: Webhook step_def webhook_def handle_event_def checkout_session_completed_def
        payment_intent_payment_failed_def getOrder_updateOrder Let_def
      split: sum.splits option.splits stripe_event.splits if_splits)
next
  case (Process openai idParam now)
  show ?thesis using assms
    by (auto simp: Process step_def process_route_def process_begin_def
         getOrder_updateOrder Let_def
      split: sum.splits option.splits prod.splits if_splits)
next
  case (Generated k now)
  show ?thesis using assms
    by (auto simp: Generated step_def process_finish_def
         getOrder_updateOrder Let_def
      split: sum.splits option.splits prod.splits if_splits)
qed

text \<open>
  C5, as the code has it. From a store whose orders all have a content and an API cost that are
  not \<open>null\<close>, every sequence of operations leads to such a store; so no order has one
  without the other. An operation changes the two fields of a stored order only when it is the
  settling of a generation call that a processing request made for that order, and the
  generation succeeded, and then it writes both, the generated text and its cost. An order
  that an operation adds has the empty string and 0.
\<close>

theorem content_and_apiCost_written_together:
  assumes "ids_below_counter (store sv)" and "both_present (store sv)"
  shows "both_present (store (fst (run isEmail cfg constructEvent sv ops)))
       \<and> (getOrder (store sv) i = Some order
            \<and> getOrder (store (fst (step isEmail cfg constructEvent sv op))) i = Some order' \<longrightarrow>
          (content order', apiCost order')
            = (case successful_generation sv op i of
                 None \<Rightarrow> (content order, apiCost order)
               | Some (tx, cost) \<Rightarrow> (Some tx, Some cost)))
       \<and> (getOrder (store sv) j = None
            \<and> getOrder (store (fst (step isEmail cfg constructEvent sv op))) j = Some fresh \<longrightarrow>
          content fresh = Some [] \<and> apiCost fresh = Some 0)"
proof (intro conjI impI)
  show "both_present (store (fst (run isEmail cfg constructEvent sv ops)))"
    using assms(2) by (rule run_both_present)
next
  assume "getOrder (store sv) i = Some order
    \<and> getOrder (store (fst (step isEmail cfg constructEvent sv op))) i = Some order'"
  then show "(content order', apiCost order')
            = (case successful_generation sv op i of
                 None \<Rightarrow> (content order, apiCost order)
               | Some (tx, cost) \<Rightarrow> (Some tx, Some cost))"
    using step_frame_existing [OF assms(1)] by blast
next
  assume h: "getOrder (store sv) j = None
    \<and> getOrder (store (fst (step isEmail cfg constructEvent sv op))) j = Some fresh"
  then show "content fresh = Some []" using step_frame_new [OF assms(1)] by blast
  from h show "apiCost fresh = Some 0" using step_frame_new [OF assms(1)] by blast
qed

text \<open>
  C5 as stated fails in its last part. Creation already sets both fields, to the empty
  string and 0, with no generation call. And a generation that succeeds with \<open>null\<close> content
  and 70 prompt tokens leaves the order \<open>complete\<close> with the empty string of creation as
  content and a cost of 7.
\<close>

theorem content_and_apiCost_counterexample:
  "map_option (\<lambda>order. (status order, content order, apiCost order))
       (getOrder (fst (create_order_route toy_isEmail dev_config new_MemStorage
                         solar_request 1000)) 1)
     = Some (PENDING, Some [], Some 0)
   \<and> snd (snd (create_order_route toy_isEmail dev_config new_MemStorage solar_request 1000))
     = [CallCreateOrder]
   \<and> generateContent null_openai ''solar panels'' 500 = Inr ([], 7)
   \<and> map_option (\<lambda>order. (status order, content order, apiCost order))
       (getOrder (store (fst (run toy_isEmail dev_config toy_constructEvent solar_server
                                [Process null_openai ''1'' 2000, Generated 0 2500]))) 1)
     = Some (COMPLETE, Some [], Some 7)"
  by code_simp

theorem content_and_apiCost_written_together_witness:
  "ids_below_counter (store solar_server) \<and> both_present (store solar_server)
   \<and> both_present (store (fst (run toy_isEmail dev_config toy_constructEvent solar_server
        [Webhook completed_request 1500, Process good_openai ''1'' 2000, Generated 0 2500,
         Create solar_request 3000])))
   \<and> ids_below_counter (store asked_server) \<and> both_present (store asked_server)
   \<and> getOrder (store asked_server) 1
       = Some (solar_order\<lparr>status := PROCESSING, updatedAt := 2000\<rparr>)
   \<and> getOrder (store (fst (step toy_isEmail dev_config toy_constructEvent asked_server
                              (Generated 0 2500)))) 1
       = Some (solar_order\<lparr>status := COMPLETE,
                 content := Some ''Solar panels turn light into power.'',
                 apiCost := Some 130, updatedAt := 2500\<rparr>)
   \<and> successful_generation asked_server (Generated 0 2500) 1
       = Some (''Solar panels turn light into power.'', 130)
   \<and> getOrder (store solar_server) 2 = None
   \<and> getOrder (store (fst (step toy_isEmail dev_config toy_constructEvent solar_server
                              (Create solar_request 3000)))) 2
       = Some (solar_order\<lparr>order_id := 2, createdAt := 3000, updatedAt := 3000\<rparr>)
   \<and> content (solar_order\<lparr>order_id := 2, createdAt := 3000, updatedAt := 3000\<rparr>) = Some []
   \<and> apiCost (solar_order\<lparr>order_id := 2, createdAt := 3000, updatedAt := 3000\<rparr>) = Some 0"
proof -
  have a: "ids_below_counter (store solar_server)" "both_present (store solar_server)"
    by code_simp+
  have a': "ids_below_counter (store asked_server)" "both_present (store asked_server)"
    by code_simp+
  have b: "getOrder (store asked_server) 1
       = Some (solar_order\<lparr>status := PROCESSING, updatedAt := 2000\<rparr>)
     \<and> getOrder (store (fst (step toy_isEmail dev_config toy_constructEvent asked_server
                              (Generated 0 2500)))) 1
       = Some (solar_order\<lparr>status := COMPLETE,
                 content := Some ''Solar panels turn light into power.'',
                 apiCost := Some 130, updatedAt := 2500\<rparr>)"
    by code_simp
  have c: "getOrder (store solar_server) 2 = None
     \<and> getOrder (store (fst (step toy_isEmail dev_config toy_constructEvent solar_server
                       (Create solar_request 3000)))) 2
       = Some (solar_order\<lparr>order_id := 2, createdAt := 3000, updatedAt := 3000\<rparr>)"
    by code_simp
  have d: "successful_generation asked_server (Generated 0 2500) 1
       = Some (''Solar panels turn light into power.'', 130)"
    by code_simp
  from content_and_apiCost_written_together [OF a, where isEmail = toy_isEmail
         and cfg = dev_config and constructEvent = toy_constructEvent
         and ops = "[Webhook completed_request 1500, Process good_openai ''1'' 2000,
                     Generated 0 2500, Create solar_request 3000]"
         and j = 2 and op = "Create solar_request 3000"
         and fresh = "solar_order\<lparr>order_id := 2, createdAt := 3000, updatedAt := 3000\<rparr>"]
       content_and_apiCost_written_together [OF a', where isEmail = toy_isEmail
         and cfg = dev_config and constructEvent = toy_constructEvent
         and i = 1 and order = "solar_order\<lparr>status := PROCESSING, updatedAt := 2000\<rparr>"
         and op = "Generated 0 2500"
         and order' = "solar_order\<lparr>status := COMPLETE,
                 content := Some ''Solar panels turn light into power.'',
                 apiCost := Some 130, updatedAt := 2500\<rparr>"]
       a a' b c d
  show ?thesis by blast
qed

section \<open>CSV export\<close>



















text \<open>
  The paths \<open>/api/orders/export\<close> and \<open>/api/orders/recent\<close> are answered by the handler of
  \<open>/api/orders/:id\<close>, which finds no number in them.
\<close>

lemma export_path_taken_by_order_route:
  "get_order_route st ''export'' = Response 400 (Message ''Invalid order ID'')"
  "get_order_route st ''recent'' = Response 400 (Message ''Invalid order ID'')"
  by (simp_all add: get_order_route_def parseInt_def is_ws_def is_digit_def)



section \<open>Listing and pages\<close>

lemma update_fresh_key:
  "k \<notin> fst ` set al \<Longrightarrow> AList.update k v al = al @ [(k, v)]"
  by (induction al) auto

lemma foldr_insort_key_front:
  fixes f :: "'a \<Rightarrow> int"
  shows "\<forall>y \<in> set xs. f x < f y \<Longrightarrow>
    foldr (insort_key f) xs [x] = x # foldr (insort_key f) xs []"
  by (induction xs) auto

lemma sort_key_snoc_least:
  fixes f :: "'a \<Rightarrow> int"
  assumes "\<forall>y \<in> set xs. f x < f y"
  shows "sort_key f (xs @ [x]) = x # sort_key f xs"
  using foldr_insort_key_front [OF assms] by (simp add: sort_key_def)

lemma order_matches_page_limit:
  "order_matches startDate now (opts\<lparr>opt_page := p, opt_limit := l\<rparr>)
     = order_matches startDate now opts"
  by (simp add: order_matches_def fun_eq_iff)

lemma filteredOrders_page_limit:
  "filteredOrders startDate now st (opts\<lparr>opt_page := p, opt_limit := l\<rparr>)
     = filteredOrders startDate now st opts"
  by (simp add: filteredOrders_def order_matches_page_limit)

lemma js_slice_page:
  assumes "0 \<le> s" "0 \<le> l"
  shows "js_slice s (s + l) xs = take (nat l) (drop (nat s) xs)"
proof (cases "s \<le> int (length xs)")
  case True
  with assms show ?thesis
    by (auto simp: js_slice_def Let_def min_def take_all_iff) 
next
  case False
  with assms show ?thesis
    by (auto simp: js_slice_def Let_def min_def)
qed

lemma filteredOrders_sorted:
  "sorted_wrt (\<lambda>a b. createdAt b \<le> createdAt a) (filteredOrders startDate now st opts)"
proof -
  have "sorted (map (\<lambda>order. - createdAt order) (filteredOrders startDate now st opts))"
    by (simp add: filteredOrders_def)
  then show ?thesis by (simp add: sorted_map)
qed

lemma getAllOrders_sorted:
  "sorted_wrt (\<lambda>a b. createdAt b \<le> createdAt a) (fst (getAllOrders startDate now st opts))"
  using filteredOrders_sorted [of startDate now st opts]
  by (simp add: getAllOrders_def js_slice_def Let_def sorted_wrt_take sorted_wrt_drop)

lemma filteredOrders_createOrder:
  assumes "ids_below_counter st" and "created_before st t"
  shows "filteredOrders startDate now (fst (createOrder st ins t)) opts
      = (if order_matches startDate now opts (snd (createOrder st ins t))
         then snd (createOrder st ins t) # filteredOrders startDate now st opts
         else filteredOrders startDate now st opts)"
proof -
  let ?new = "snd (createOrder st ins t)"
  from assms(1) have "orderIdCounter st \<notin> fst ` set (orders st)"
    by (auto simp: ids_below_counter_def)
  then have o: "orders (fst (createOrder st ins t)) = orders st @ [(orderIdCounter st, ?new)]"
    by (simp add: createOrder_def Let_def update_fresh_key)
  have c: "createdAt ?new = t" by (simp add: createOrder_def Let_def)
  from assms(2) have "\<forall>y \<in> set (filter (order_matches startDate now opts) (map snd (orders st))).
      - createdAt ?new < - createdAt y"
    by (auto simp: created_before_def list_all_iff c)
  from sort_key_snoc_least [OF this] show ?thesis
    by (simp add: filteredOrders_def o)
qed

text \<open>
  C7, as the code has it. The listing is ordered by creation time, later first. For a page
  number of at least 1 and a limit of at least 0, the page is the run of \<open>limit\<close> entries of
  the filtered, ordered listing that starts at position \<open>(page - 1) * limit\<close>. When an order
  is created later than every stored order, the listing of the new store is the old listing
  with the new order in front if it passes the filters, and the old listing if it does not:
  every earlier order keeps its position or moves down by exactly one.
\<close>

theorem listing_newest_first_offset_pages:
  assumes "ids_below_counter st" and "created_before st t"
  shows "sorted_wrt (\<lambda>a b. createdAt b \<le> createdAt a)
           (fst (getAllOrders startDate now st opts))
       \<and> (1 \<le> p \<and> 0 \<le> l \<longrightarrow>
            fst (getAllOrders startDate now st (opts\<lparr>opt_page := Some p, opt_limit := Some l\<rparr>))
              = take (nat l) (drop (nat ((p - 1) * l)) (filteredOrders startDate now st opts)))
       \<and> filteredOrders startDate now (fst (createOrder st ins t)) opts
            = (if order_matches startDate now opts (snd (createOrder st ins t))
               then snd (createOrder st ins t) # filteredOrders startDate now st opts
               else filteredOrders startDate now st opts)"
proof (intro conjI impI)
  show "sorted_wrt (\<lambda>a b. createdAt b \<le> createdAt a)
           (fst (getAllOrders startDate now st opts))"
    by (rule getAllOrders_sorted)
next
  assume h: "1 \<le> p \<and> 0 \<le> l"
  then have "0 \<le> (p - 1) * l" by simp
  from js_slice_page [OF this, of l] h
  show "fst (getAllOrders startDate now st (opts\<lparr>opt_page := Some p, opt_limit := Some l\<rparr>))
          = take (nat l) (drop (nat ((p - 1) * l)) (filteredOrders startDate now st opts))"
    by (simp add: getAllOrders_def Let_def filteredOrders_page_limit)
next
  show "filteredOrders startDate now (fst (createOrder st ins t)) opts
            = (if order_matches startDate now opts (snd (createOrder st ins t))
               then snd (createOrder st ins t) # filteredOrders startDate now st opts
               else filteredOrders startDate now st opts)"
    using assms by (rule filteredOrders_createOrder)
qed

text \<open>
  C7 as stated fails: with fifteen orders and pages of ten, order 6 is the last entry of
  page 1 and page 2 starts with order 5; once a sixteenth order is created, page 2 starts
  with order 6.
\<close>

theorem pagination_shift_counterexample:
  "map order_id (fst (getAllOrders toy_startDate 20000 (store_with 15) (page_of 1)))
     = [15, 14, 13, 12, 11, 10, 9, 8, 7, 6]
   \<and> map order_id (fst (getAllOrders toy_startDate 20000 (store_with 15) (page_of 2)))
     = [5, 4, 3, 2, 1]
   \<and> map order_id
        (fst (getAllOrders toy_startDate 20000
                (fst (createOrder (store_with 15) solar_insert 16000)) (page_of 2)))
     = [6, 5, 4, 3, 2, 1]"
  by code_simp

theorem listing_newest_first_offset_pages_witness:
  "ids_below_counter (store_with 3) \<and> created_before (store_with 3) 4000
   \<and> (1 :: int) \<le> 2 \<and> (0 :: int) \<le> 2
   \<and> map order_id (fst (getAllOrders toy_startDate 20000 (store_with 3)
         (no_options\<lparr>opt_page := Some 2, opt_limit := Some 2\<rparr>))) = [1]
   \<and> order_matches toy_startDate 20000 no_options (snd (createOrder (store_with 3) solar_insert 4000))
   \<and> map order_id (filteredOrders toy_startDate 20000
         (fst (createOrder (store_with 3) solar_insert 4000)) no_options) = [4, 3, 2, 1]"
proof -
  have a: "ids_below_counter (store_with 3)" "created_before (store_with 3) 4000"
    by code_simp+
  have b: "(1 :: int) \<le> 2 \<and> (0 :: int) \<le> 2" by simp
  have c: "order_matches toy_startDate 20000 no_options
             (snd (createOrder (store_with 3) solar_insert 4000))"
    by code_simp
  have d: "map order_id (filteredOrders toy_startDate 20000 (store_with 3) no_options) = [3, 2, 1]"
    by code_simp
  have e: "order_id (snd (createOrder (store_with 3) solar_insert 4000)) = 4"
    by code_simp
  from listing_newest_first_offset_pages [OF a, where startDate = toy_startDate and now = 20000
         and opts = no_options and p = 2 and l = 2 and ins = solar_insert] b c
  have f: "fst (getAllOrders toy_startDate 20000 (store_with 3)
              (no_options\<lparr>opt_page := Some 2, opt_limit := Some 2\<rparr>))
            = take (nat 2) (drop (nat ((2 - 1) * 2)) (filteredOrders toy_startDate 20000 (store_with 3) no_options))"
    and g: "filteredOrders toy_startDate 20000 (fst (createOrder (store_with 3) solar_insert 4000)) no_options
            = snd (createOrder (store_with 3) solar_insert 4000)
              # filteredOrders toy_startDate 20000 (store_with 3) no_options"
    by simp_all
  have f': "map order_id (fst (getAllOrders toy_startDate 20000 (store_with 3)
              (no_options\<lparr>opt_page := Some 2, opt_limit := Some 2\<rparr>))) = [1]"
    unfolding f using d by (simp add: take_map [symmetric] drop_map [symmetric] del: take_map drop_map)
  have g': "map order_id (filteredOrders toy_startDate 20000
         (fst (createOrder (store_with 3) solar_insert 4000)) no_options) = [4, 3, 2, 1]"
    unfolding g using d e by simp
  from a b c f' g' show ?thesis by simp
qed

section \<open>Reading the settings\<close>

text \<open>
  C10 fails on the code. \<open>MemStorage.getSettings\<close> returns the stored settings object
  itself, and the handler of \<open>GET /api/settings\<close> assigns the masks to it. In the store where
  the OpenAI key \<open>sk-live-123\<close> was saved, after one such request the stored key is the mask
  of 31 bullets; a second request answers as the first did.
\<close>

theorem get_settings_route_overwrites_stored_keys:
  "map_option (map_option openaiApiKey \<circ> s_apiKeys) (heap keys_store (getSettings keys_store))
     = Some (Some (Some ''sk-live-123''))
   \<and> map_option (map_option openaiApiKey \<circ> s_apiKeys)
        (heap (fst (get_settings_route keys_store))
              (getSettings (fst (get_settings_route keys_store))))
     = Some (Some (Some mask31))
   \<and> snd (get_settings_route (fst (get_settings_route keys_store)))
     = snd (get_settings_route keys_store)
   \<and> mask31 \<noteq> ''sk-live-123''"
  by code_simp

end
